theory Spec2Isabelle
  imports Main "HOL-Library.Char_ord" "HOL-Library.List_Lexorder" "HOL-Library.Product_Lexorder"
begin

section \<open>Text\<close>

text \<open>
  The program is the Python script embedded in the blog post: it reads a BibTeX file,
  checks every entry against the fields its type requires, rewrites the entry and logs
  the verdict. Python text is modelled by \<^typ>\<open>string\<close>, the list of the bytes of its
  UTF-8 encoding: the Chinese literals of the script are spelled out byte by byte, a
  character is one byte that is not a continuation byte together with the continuation
  bytes that follow it, and the order of byte lists is the order of the code point lists
  they encode.
\<close>

abbreviation nl :: char where "nl \<equiv> CHR 0x0A"
abbreviation tab :: char where "tab \<equiv> CHR 0x09"

text \<open>
  \<open>s.startswith(p)\<close>, and \<open>sub in s\<close>: \<open>sub\<close> occurs in \<open>s\<close> as a contiguous run.
\<close>

fun startswith :: "string \<Rightarrow> string \<Rightarrow> bool" where
  "startswith s [] = True"
| "startswith [] (p # ps) = False"
| "startswith (c # cs) (p # ps) = (c = p \<and> startswith cs ps)"

fun contains :: "string \<Rightarrow> string \<Rightarrow> bool" where
  "contains [] sub = (sub = [])"
| "contains (c # cs) sub = (startswith (c # cs) sub \<or> contains cs sub)"

text \<open>
  \<open>str.lower()\<close>. The ASCII capitals map to the small letters. Two characters outside
  ASCII have a lower-case form with an ASCII letter in it: the Kelvin sign U+212A (bytes
  E2 84 AA) becomes \<open>k\<close>, and the capital I with dot above U+0130 (bytes C4 B0) becomes
  \<open>i\<close> followed by the combining dot U+0307 (bytes CC 87). Every other character
  outside ASCII is kept as it is: its lower-case form has no ASCII character either, and
  the script uses the result of \<open>lower()\<close> only to compare it with ASCII literals and to
  look for the ASCII text \<open>arxiv\<close> in it, so those tests come out as in Python.
\<close>

definition lower_char :: "char \<Rightarrow> char" where
  "lower_char c =
     (case map_of (zip ''ABCDEFGHIJKLMNOPQRSTUVWXYZ'' ''abcdefghijklmnopqrstuvwxyz'') c of
        None \<Rightarrow> c
      | Some d \<Rightarrow> d)"

fun lower :: "string \<Rightarrow> string" where
  "lower [] = []"
| "lower (c # cs) =
     (if startswith (c # cs) [CHR 0xE2, CHR 0x84, CHR 0xAA] then
        CHR ''k'' # lower (drop 2 cs)
      else if startswith (c # cs) [CHR 0xC4, CHR 0xB0] then
        CHR ''i'' # CHR 0xCC # CHR 0x87 # lower (drop 1 cs)
      else lower_char c # lower cs)"

text \<open>
  \<open>len(s)\<close> counts characters: the bytes that are not continuation bytes (a
  continuation byte has its top two bits 1 and 0). The format specification \<open>:<10\<close>
  pads on the right with spaces up to ten characters.
\<close>

definition is_continuation :: "char \<Rightarrow> bool" where
  "is_continuation c = (digit7 c \<and> \<not> digit6 c)"

definition py_len :: "string \<Rightarrow> nat" where
  "py_len s = length (filter (\<lambda>c. \<not> is_continuation c) s)"

definition ljust :: "nat \<Rightarrow> string \<Rightarrow> string" where
  "ljust n s = s @ replicate (n - py_len s) CHR '' ''"

text \<open>\<open>s.rstrip(chars)\<close> removes every trailing character that is in \<open>chars\<close>.\<close>

definition rstrip :: "string \<Rightarrow> string \<Rightarrow> string" where
  "rstrip chars s = rev (dropWhile (\<lambda>c. c \<in> set chars) (rev s))"

text \<open>\<open>sep.join(xs)\<close>.\<close>

fun join :: "string \<Rightarrow> string list \<Rightarrow> string" where
  "join sep [] = []"
| "join sep [x] = x"
| "join sep (x # y # ys) = x @ sep @ join sep (y # ys)"

section \<open>Patterns\<close>

text \<open>
  The two patterns the script hands to \<open>re.match\<close> use single characters, the classes
  \<open>.\<close>, \<open>[^...]\<close>, \<open>\d\<close> and \<open>\s\<close>, the quantifiers \<open>*\<close> and \<open>+\<close> on one
  character, and the anchors \<open>^\<close> and \<open>$\<close>. A pattern is the list of these items,
  matched byte by byte. For a literal, for \<open>.\<close> and for \<open>[^)]\<close> this is the match on
  characters: the bytes of a character outside ASCII are neither a newline nor a
  parenthesis. \<open>\d\<close> and \<open>\s\<close> are the ASCII digits and the ASCII white space (with the
  four separators 1C to 1F); the digits and spaces that Unicode adds outside ASCII are not
  in the model. Only the arXiv pattern uses these two classes, and it is evaluated below
  on ASCII text only.
\<close>

datatype atom = Lit char | Dot | NotOf "char list" | Digit | Space

datatype item = One atom | Star atom | Plus atom | Bol | Eol

fun atom_ok :: "atom \<Rightarrow> char \<Rightarrow> bool" where
  "atom_ok (Lit a) c = (c = a)"
| "atom_ok Dot c = (c \<noteq> nl)"
| "atom_ok (NotOf cs) c = (c \<notin> set cs)"
| "atom_ok Digit c = (c \<in> set ''0123456789'')"
| "atom_ok Space c =
     (c \<in> set [CHR '' '', tab, nl, CHR 0x0B, CHR 0x0C, CHR 0x0D,
                CHR 0x1C, CHR 0x1D, CHR 0x1E, CHR 0x1F])"

text \<open>
  \<open>rmatch p at_start s\<close>: some prefix of \<open>s\<close> is matched by \<open>p\<close>. Backtracking tries
  every number of repetitions, so the order in which Python tries them does not change
  whether a match exists. \<open>^\<close> holds where nothing has been consumed yet; \<open>$\<close> holds at
  the end of the text and just before a newline that ends it.
\<close>

fun rmatch :: "item list \<Rightarrow> bool \<Rightarrow> string \<Rightarrow> bool" where
  "rmatch [] b s = True"
| "rmatch (One a # p) b [] = False"
| "rmatch (One a # p) b (c # cs) = (atom_ok a c \<and> rmatch p False cs)"
| "rmatch (Star a # p) b [] = rmatch p b []"
| "rmatch (Star a # p) b (c # cs) =
     (rmatch p b (c # cs) \<or> (atom_ok a c \<and> rmatch (Star a # p) False cs))"
| "rmatch (Plus a # p) b [] = False"
| "rmatch (Plus a # p) b (c # cs) = (atom_ok a c \<and> rmatch (Star a # p) False cs)"
| "rmatch (Bol # p) b s = (b \<and> rmatch p b s)"
| "rmatch (Eol # p) b s = ((s = [] \<or> s = [nl]) \<and> rmatch p b s)"

text \<open>\<open>re.match(pattern, s)\<close> as a truth value: the match starts at the first character.\<close>

definition re_match :: "item list \<Rightarrow> string \<Rightarrow> bool" where
  "re_match pattern s = rmatch pattern True s"

text \<open>\<^verbatim>\<open>r'^arXiv preprint arXiv:\s*\d+\.\d+$'\<close>\<close>

definition arxiv_format_check :: "item list" where
  "arxiv_format_check =
     Bol # map (\<lambda>c. One (Lit c)) ''arXiv preprint arXiv:''
       @ [Star Space, Plus Digit, One (Lit CHR ''.''), Plus Digit, Eol]"

text \<open>\<^verbatim>\<open>r'.*\([^)]*\)$'\<close>\<close>

definition paren_format_check :: "item list" where
  "paren_format_check =
     [Star Dot, One (Lit CHR ''(''), Star (NotOf '')''), One (Lit CHR '')''), Eol]"

section \<open>Entries\<close>

text \<open>
  An entry is the dictionary the parser returns, kept as the list of its items (the keys
  of a dictionary are distinct). \<open>entry.get(key)\<close> is \<open>lookup\<close>, \<open>entry.get(key, d)\<close> is
  \<open>get_or\<close>, and a value is falsy when it is absent or the empty text.
\<close>

type_synonym entry = "(string \<times> string) list"

datatype error = KeyError string | IndexError

definition lookup :: "entry \<Rightarrow> string \<Rightarrow> string option" where
  "lookup entry key = map_of entry key"

definition get_or :: "entry \<Rightarrow> string \<Rightarrow> string \<Rightarrow> string" where
  "get_or entry key d = (case lookup entry key of None \<Rightarrow> d | Some v \<Rightarrow> v)"

definition falsy :: "string option \<Rightarrow> bool" where
  "falsy v = (v = None \<or> v = Some [])"

subsection \<open>The literals of the script\<close>

definition missing_fields_text :: string where
  "missing_fields_text =
     [CHR 0xE7, CHR 0xBC, CHR 0xBA, CHR 0xE5, CHR 0xA4, CHR 0xB1,
      CHR 0xE5, CHR 0xAD, CHR 0x97, CHR 0xE6, CHR 0xAE, CHR 0xB5]"

definition format_error_text :: string where
  "format_error_text =
     [CHR 0xE6, CHR 0xA0, CHR 0xBC, CHR 0xE5, CHR 0xBC, CHR 0x8F,
      CHR 0xE9, CHR 0x94, CHR 0x99, CHR 0xE8, CHR 0xAF, CHR 0xAF]"

definition rewritten_text :: string where
  "rewritten_text = [CHR 0xE6, CHR 0x94, CHR 0xB9]"

definition undefined_type_text :: string where
  "undefined_type_text =
     [CHR 0xE6, CHR 0x9C, CHR 0xAA, CHR 0xE5, CHR 0xAE, CHR 0x9A, CHR 0xE4, CHR 0xB9, CHR 0x89]
     @ ''bibtex'' @ [CHR 0xE7, CHR 0xB1, CHR 0xBB, CHR 0xE5, CHR 0x9E, CHR 0x8B]"

section \<open>The validator\<close>

text \<open>
  \<open>header\<close> and \<open>field_line\<close> are the two f-strings that build the rewritten entry.
  The first is an at sign, the entry type, an opening brace, \<open>entry.get('ID', 'unnamed')\<close>,
  a comma and a newline. The second is a tab, the field name formatted with \<open>:<10\<close>, the
  text \<open> = \<close>, then \<open>bib_dict[field]\<close> (which is \<open>entry.get(field, "null")\<close>) in braces,
  a comma and a newline.
\<close>

definition header :: "entry \<Rightarrow> string \<Rightarrow> string" where
  "header entry entry_type = ''@'' @ entry_type @ ''{'' @ get_or entry ''ID'' ''unnamed'' @ [CHR '','', nl]"

definition field_line :: "entry \<Rightarrow> string \<Rightarrow> string" where
  "field_line entry field =
     tab # ljust 10 field @ '' = {'' @ get_or entry field ''null'' @ [CHR ''}'', CHR '','', nl]"

text \<open>
  \<open>generate_bibtex\<close> is the inner function of \<open>print_entry_info\<close>; it assigns the two
  nonlocal variables \<open>record\<close> and \<open>update_entry\<close>, returned here as a pair.
  \<open>required_fields[0]\<close> raises on an empty list, which is reached only when a format
  check is given and no field is missing.
\<close>

definition generate_bibtex ::
  "entry \<Rightarrow> string \<Rightarrow> string list \<Rightarrow> item list option \<Rightarrow> error + (string \<times> string)" where
  "generate_bibtex entry entry_type required_fields format_check =
     (let missing_fields = filter (\<lambda>field. falsy (lookup entry field)) required_fields;
          update_entry =
            rstrip [CHR '','', nl]
              (header entry entry_type @ concat (map (field_line entry) required_fields))
            @ [nl, CHR ''}'']
      in if missing_fields \<noteq> [] then
           Inr (''error: '' @ missing_fields_text @ '': '' @ join '', '' missing_fields, update_entry)
         else
           (case format_check of
              None \<Rightarrow> Inr (''ok'', update_entry)
            | Some pattern \<Rightarrow>
                (case required_fields of
                   [] \<Rightarrow> Inl IndexError
                 | first # _ \<Rightarrow>
                     if \<not> re_match pattern (get_or entry first ''null'') then
                       Inr (''warning: '' @ first @ format_error_text, update_entry)
                     else Inr (''ok'', update_entry))))"

text \<open>The original entry, rendered with its items sorted.\<close>

definition original_entry :: "entry \<Rightarrow> string \<Rightarrow> string" where
  "original_entry entry ty =
     rstrip [CHR '','', nl]
       (''@'' @ ty @ ''{'' @ get_or entry ''ID'' ''unnamed'' @ [CHR '','', nl]
        @ concat (map (\<lambda>(key, value).
                         tab # ljust 10 key @ '' = {'' @ value @ [CHR ''}'', CHR '','', nl])
                   (filter (\<lambda>(key, value). key \<notin> set [''ENTRYTYPE'', ''ID'']) (sort entry))))
     @ [nl, CHR ''}'']"

text \<open>
  \<open>is_arxiv\<close> is the test of the \<open>article\<close> branch,
  \<open>'journal' in entry and 'arxiv' in entry['journal'].lower()\<close>. \<open>demote\<close> is the
  assignment that follows the call for \<open>misc\<close> and \<open>www\<close>: a record equal to \<open>ok\<close>
  becomes the rewrite warning; an exception of the call passes through.
\<close>

definition is_arxiv :: "entry \<Rightarrow> bool" where
  "is_arxiv entry =
     (case lookup entry ''journal'' of None \<Rightarrow> False | Some j \<Rightarrow> contains (lower j) ''arxiv'')"

definition demote :: "error + (string \<times> string) \<Rightarrow> error + (string \<times> string)" where
  "demote r =
     (case r of
        Inl e \<Rightarrow> Inl e
      | Inr (record, update_entry) \<Rightarrow>
          Inr (if record = ''ok'' then ''warning: misc'' @ rewritten_text @ ''www'' else record,
               update_entry))"

definition print_entry_info :: "entry \<Rightarrow> error + (string \<times> string \<times> string)" where
  "print_entry_info entry =
     (case lookup entry ''ENTRYTYPE'' of
        None \<Rightarrow> Inl (KeyError ''ENTRYTYPE'')
      | Some ty \<Rightarrow>
          (case
             (if lower ty = ''article'' then
                (if is_arxiv entry then
                   generate_bibtex entry ''article''
                     [''title'', ''author'', ''year'', ''journal''] (Some arxiv_format_check)
                 else
                   generate_bibtex entry ''article''
                     [''title'', ''author'', ''journal'', ''volume'', ''number'', ''pages'', ''year'']
                     (Some paren_format_check))
              else if lower ty = ''inproceedings'' then
                generate_bibtex entry ''inproceedings''
                  [''title'', ''author'', ''booktitle'', ''year'', ''pages'']
                  (Some paren_format_check)
              else if lower ty \<in> set [''misc'', ''www''] then
                demote (generate_bibtex entry ''www'' [''author'', ''year'', ''title'', ''url''] None)
              else if lower ty = ''book'' then
                generate_bibtex entry ''book''
                  [''author'', ''title'', ''publisher'', ''year'', ''address'', ''edition''] None
              else if lower ty = ''techreport'' then
                generate_bibtex entry ''techreport''
                  [''author'', ''title'', ''institution'', ''year'', ''address''] None
              else Inr (''error: '' @ undefined_type_text, []))
           of
             Inl e \<Rightarrow> Inl e
           | Inr (record, update_entry) \<Rightarrow>
               Inr (record, update_entry, original_entry entry ty)))"

section \<open>The driver\<close>

text \<open>
  The world of a run: the lines printed so far, the audit workbook
  \<open>bibtex_records.xlsx\<close> (absent, or its rows) and the consolidated file
  \<open>updated_references.bib\<close> (absent, or its content). The BibTeX parser and the
  workbook library are outside the script: the parser is represented by what it gave for
  \<open>bib.ref\<close>, the workbook by its rows, each with the fill of its cells. Column
  widths are not part of the model.
\<close>

datatype fill = NoFill | RedFill | YellowFill

type_synonym row = "string \<times> string \<times> string \<times> fill"

record world =
  stdout :: "string list"
  xlsx :: "row list option"
  bib :: "string option"

datatype parse_outcome = Parsed "entry list" | FileNotFound | ParseFailure string

definition file_not_found_text :: string where
  "file_not_found_text =
     [CHR 0xE9, CHR 0x94, CHR 0x99, CHR 0xE8, CHR 0xAF, CHR 0xAF] @ '': ''
     @ [CHR 0xE6, CHR 0x89, CHR 0xBE, CHR 0xE4, CHR 0xB8, CHR 0x8D, CHR 0xE5, CHR 0x88, CHR 0xB0,
        CHR 0xE6, CHR 0x96, CHR 0x87, CHR 0xE4, CHR 0xBB, CHR 0xB6] @ '' ''"

definition parse_failure_text :: string where
  "parse_failure_text =
     [CHR 0xE8, CHR 0xA7, CHR 0xA3, CHR 0xE6, CHR 0x9E, CHR 0x90, CHR 0xE8, CHR 0xBF, CHR 0x87,
      CHR 0xE7, CHR 0xA8, CHR 0x8B, CHR 0xE4, CHR 0xB8, CHR 0xAD, CHR 0xE5, CHR 0x8F, CHR 0x91,
      CHR 0xE7, CHR 0x94, CHR 0x9F, CHR 0xE9, CHR 0x94, CHR 0x99, CHR 0xE8, CHR 0xAF, CHR 0xAF]
     @ '': ''"

definition found_text :: string where
  "found_text =
     [CHR 0xE5, CHR 0x85, CHR 0xB1, CHR 0xE6, CHR 0x89, CHR 0xBE, CHR 0xE5, CHR 0x88, CHR 0xB0]
     @ '' ''"

definition records_text :: string where
  "records_text =
     '' '' @ [CHR 0xE6, CHR 0x9D, CHR 0xA1, CHR 0xE6, CHR 0x96, CHR 0x87, CHR 0xE7, CHR 0x8C, CHR 0xAE,
             CHR 0xE8, CHR 0xAE, CHR 0xB0, CHR 0xE5, CHR 0xBD, CHR 0x95]"

definition processing_text :: string where
  "processing_text =
     [CHR 0xE5, CHR 0xA4, CHR 0x84, CHR 0xE7, CHR 0x90, CHR 0x86,
      CHR 0xE8, CHR 0xAE, CHR 0xB0, CHR 0xE5, CHR 0xBD, CHR 0x95] @ '': ''"

definition updated_text :: string where
  "updated_text =
     [CHR 0xE6, CHR 0x9B, CHR 0xB4, CHR 0xE6, CHR 0x96, CHR 0xB0, CHR 0xE5, CHR 0x90, CHR 0x8E,
      CHR 0xE7, CHR 0x9A, CHR 0x84, CHR 0xE6, CHR 0x9D, CHR 0xA1, CHR 0xE7, CHR 0x9B, CHR 0xAE]
     @ '':''"

definition saved_text :: string where
  "saved_text =
     [CHR 0xE6, CHR 0x89, CHR 0x80, CHR 0xE6, CHR 0x9C, CHR 0x89, CHR 0xE6, CHR 0x9B, CHR 0xB4,
      CHR 0xE6, CHR 0x96, CHR 0xB0, CHR 0xE5, CHR 0x90, CHR 0x8E, CHR 0xE7, CHR 0x9A, CHR 0x84,
      CHR 0xE6, CHR 0x9D, CHR 0xA1, CHR 0xE7, CHR 0x9B, CHR 0xAE, CHR 0xE5, CHR 0xB7, CHR 0xB2,
      CHR 0xE4, CHR 0xBF, CHR 0x9D, CHR 0xE5, CHR 0xAD, CHR 0x98, CHR 0xE5, CHR 0x88, CHR 0xB0]
     @ '' ''"

definition no_records_text :: string where
  "no_records_text =
     [CHR 0xE6, CHR 0x9C, CHR 0xAA, CHR 0xE6, CHR 0x89, CHR 0xBE, CHR 0xE5, CHR 0x88, CHR 0xB0,
      CHR 0xE4, CHR 0xBB, CHR 0xBB, CHR 0xE4, CHR 0xBD, CHR 0x95, CHR 0xE6, CHR 0x96, CHR 0x87,
      CHR 0xE7, CHR 0x8C, CHR 0xAE, CHR 0xE8, CHR 0xAE, CHR 0xB0, CHR 0xE5, CHR 0xBD, CHR 0x95]"

fun str_nat :: "nat \<Rightarrow> string" where
  "str_nat n =
     (if n < 10 then [''0123456789'' ! n]
      else str_nat (n div 10) @ [''0123456789'' ! (n mod 10)])"

declare str_nat.simps [simp del]

definition print :: "string \<Rightarrow> world \<Rightarrow> world" where
  "print line w = w\<lparr>stdout := stdout w @ [line]\<rparr>"

definition parse_bib_file :: "string \<Rightarrow> parse_outcome \<Rightarrow> entry list \<times> string list" where
  "parse_bib_file file_path outcome =
     (case outcome of
        Parsed entries \<Rightarrow> (entries, [])
      | FileNotFound \<Rightarrow> ([], [file_not_found_text @ file_path])
      | ParseFailure e \<Rightarrow> ([], [parse_failure_text @ e]))"

definition save_to_excel :: "string \<Rightarrow> string \<Rightarrow> string \<Rightarrow> world \<Rightarrow> world" where
  "save_to_excel original updated record_text w =
     (let rows = (case xlsx w of
                    Some rows \<Rightarrow> rows
                  | None \<Rightarrow> [(''Original'', ''Updated'', ''Record'', NoFill)]);
          flag = (if startswith record_text ''error'' then RedFill
                  else if startswith record_text ''warning'' then YellowFill
                  else NoFill)
      in w\<lparr>xlsx := Some (rows @ [(original, updated, record_text, flag)])\<rparr>)"

fun write_updates :: "entry list \<Rightarrow> string \<Rightarrow> error option \<times> string" where
  "write_updates [] f = (None, f)"
| "write_updates (entry # entries) f =
     (case print_entry_info entry of
        Inl e \<Rightarrow> (Some e, f)
      | Inr (record_text, update_entry, original) \<Rightarrow>
          write_updates entries (if update_entry \<noteq> [] then f @ update_entry @ [nl, nl] else f))"

definition save_all_updates :: "entry list \<Rightarrow> world \<Rightarrow> error option \<times> world" where
  "save_all_updates entries w =
     (case write_updates entries [] of (e, content) \<Rightarrow> (e, w\<lparr>bib := Some content\<rparr>))"

fun process_entries :: "entry list \<Rightarrow> world \<Rightarrow> error option \<times> world" where
  "process_entries [] w = (None, w)"
| "process_entries (entry # entries) w =
     (case print_entry_info entry of
        Inl e \<Rightarrow> (Some e, w)
      | Inr (record_text, update_entry, original) \<Rightarrow>
          (let w1 = (if record_text \<noteq> [] then print (processing_text @ record_text) w else w);
               w2 = (if update_entry \<noteq> [] then print (updated_text @ [nl] @ update_entry @ [nl]) w1
                     else w1)
           in process_entries entries (save_to_excel original update_entry record_text w2)))"

definition main :: "parse_outcome \<Rightarrow> world \<Rightarrow> error option \<times> world" where
  "main outcome w =
     (let w1 = (if xlsx w \<noteq> None then w\<lparr>xlsx := None\<rparr> else w);
          (entries, messages) = parse_bib_file ''bib.ref'' outcome;
          w2 = w1\<lparr>stdout := stdout w1 @ messages\<rparr>
      in if entries \<noteq> [] then
           (case process_entries entries (print (found_text @ str_nat (length entries) @ records_text) w2) of
              (Some e, w3) \<Rightarrow> (Some e, w3)
            | (None, w3) \<Rightarrow>
                (case save_all_updates entries w3 of
                   (Some e, w4) \<Rightarrow> (Some e, w4)
                 | (None, w4) \<Rightarrow>
                     (None, print ([nl] @ saved_text @ ''updated_references.bib'') w4)))
         else (None, print no_records_text w2))"

section \<open>Vocabulary of the statements\<close>

text \<open>
  \<open>selected_rule\<close> reads off the conditional chain of \<open>print_entry_info\<close> which call
  of \<open>generate_bibtex\<close> an entry of type \<open>ty\<close> reaches: the output type, the required
  fields and the format check. Lemma \<open>print_entry_info_selected\<close> below ties it to the
  function itself. \<open>canonical_line\<close> is the line of one field in the rewritten entry,
  without the separator that follows it.
\<close>

definition canonical_line :: "entry \<Rightarrow> string \<Rightarrow> string" where
  "canonical_line entry field =
     tab # ljust 10 field @ '' = {''
       @ (case lookup entry field of None \<Rightarrow> ''null'' | Some v \<Rightarrow> v) @ ''}''"

definition selected_rule :: "entry \<Rightarrow> string \<Rightarrow> (string \<times> string list \<times> item list option) option" where
  "selected_rule entry ty =
     (if lower ty = ''article'' then
        (if is_arxiv entry then
           Some (''article'', [''title'', ''author'', ''year'', ''journal''], Some arxiv_format_check)
         else
           Some (''article'',
                 [''title'', ''author'', ''journal'', ''volume'', ''number'', ''pages'', ''year''],
                 Some paren_format_check))
      else if lower ty = ''inproceedings'' then
        Some (''inproceedings'', [''title'', ''author'', ''booktitle'', ''year'', ''pages''],
              Some paren_format_check)
      else if lower ty \<in> set [''misc'', ''www''] then
        Some (''www'', [''author'', ''year'', ''title'', ''url''], None)
      else if lower ty = ''book'' then
        Some (''book'', [''author'', ''title'', ''publisher'', ''year'', ''address'', ''edition''], None)
      else if lower ty = ''techreport'' then
        Some (''techreport'', [''author'', ''title'', ''institution'', ''year'', ''address''], None)
      else None)"

definition record_of :: "error + (string \<times> string \<times> string) \<Rightarrow> string option" where
  "record_of r = (case r of Inl e \<Rightarrow> None | Inr (record, update_entry, original) \<Rightarrow> Some record)"

definition update_of :: "error + (string \<times> string \<times> string) \<Rightarrow> string option" where
  "update_of r = (case r of Inl e \<Rightarrow> None | Inr (record, update_entry, original) \<Rightarrow> Some update_entry)"

definition canonical_rendering :: "entry \<Rightarrow> string \<Rightarrow> string list \<Rightarrow> string" where
  "canonical_rendering entry entry_type required_fields =
     header entry entry_type
       @ join [CHR '','', nl] (map (canonical_line entry) required_fields) @ [nl, CHR ''}'']"

subsection \<open>Sample entries\<close>

definition inproceedings_example :: "string \<Rightarrow> entry" where
  "inproceedings_example title =
     [(''ENTRYTYPE'', ''inproceedings''), (''ID'', ''he2016''), (''title'', title),
      (''author'', ''He, K.''), (''booktitle'', ''Proc. CVPR''), (''year'', ''2016''),
      (''pages'', ''1-20'')]"

definition paged_example :: entry where
  "paged_example =
     [(''ENTRYTYPE'', ''inproceedings''), (''ID'', ''he2016''), (''title'', ''Deep nets''),
      (''author'', ''He, K.''), (''booktitle'', ''Proc. CVPR''), (''year'', ''2016''),
      (''pages'', ''770-778 (2016)'')]"

definition incomplete_example :: entry where
  "incomplete_example =
     [(''ENTRYTYPE'', ''InProceedings''), (''ID'', ''he2016''), (''title'', ''Deep nets''),
      (''author'', ''He, K.''), (''booktitle'', ''Proc. CVPR''), (''year'', [])]"

definition book_example :: entry where
  "book_example =
     [(''ENTRYTYPE'', ''book''), (''ID'', ''knuth1997''), (''author'', ''Knuth, D.''),
      (''title'', ''TAOCP''), (''publisher'', ''Addison-Wesley''), (''year'', ''1997''),
      (''address'', [])]"

definition misc_example :: entry where
  "misc_example =
     [(''ENTRYTYPE'', ''Misc''), (''author'', ''W3C''), (''year'', ''2014''),
      (''title'', ''HTML5''), (''url'', ''https://www.w3.org/TR/html5/'')]"

definition arxiv_example :: entry where
  "arxiv_example =
     [(''ENTRYTYPE'', ''article''), (''ID'', ''vaswani2017''),
      (''title'', ''Attention is all you need''), (''author'', ''Vaswani, A.''),
      (''year'', ''2017''), (''journal'', ''arXiv preprint arXiv:1706.03762'')]"

definition patent_example :: entry where
  "patent_example = [(''ENTRYTYPE'', ''patent''), (''ID'', ''p1''), (''title'', ''A patent'')]"

definition stale_world :: world where
  "stale_world =
     \<lparr>stdout = [],
      xlsx = Some [(''Original'', ''Updated'', ''Record'', NoFill)],
      bib = Some ''old''\<rparr>"

section \<open>Auxiliary facts\<close>

lemmas model_defs =
  print_entry_info_def generate_bibtex_def selected_rule_def demote_def is_arxiv_def
  lookup_def get_or_def falsy_def lower_char_def header_def field_line_def
  canonical_line_def ljust_def py_len_def is_continuation_def rstrip_def re_match_def paren_format_check_def
  arxiv_format_check_def record_of_def update_of_def

lemma rstrip_tail:
  assumes "c \<notin> set chars" and "set ys \<subseteq> set chars"
  shows "rstrip chars (xs @ c # ys) = xs @ [c]"
proof -
  have "dropWhile (\<lambda>c. c \<in> set chars) (rev ys) = []"
    using assms(2) by (auto simp: dropWhile_eq_Nil_conv)
  then have "dropWhile (\<lambda>c. c \<in> set chars) (rev ys @ c # rev xs) = c # rev xs"
    using assms(1) by (simp add: dropWhile_append3)
  then show ?thesis by (simp add: rstrip_def)
qed

lemma join_snoc: "join sep (xs @ [x]) = concat (map (\<lambda>y. y @ sep) xs) @ x"
  by (induction sep xs rule: join.induct) auto

lemma field_line_canonical: "field_line entry f = canonical_line entry f @ [CHR '','', nl]"
  by (simp add: field_line_def canonical_line_def get_or_def)

lemma canonical_line_last: "\<exists>body. canonical_line entry f = body @ ''}''"
  by (simp add: canonical_line_def)

lemma update_entry_canonical:
  assumes "required_fields \<noteq> []"
  shows "rstrip [CHR '','', nl] (h @ concat (map (field_line entry) required_fields))
           = h @ join [CHR '','', nl] (map (canonical_line entry) required_fields)"
proof -
  obtain fs f where req: "required_fields = fs @ [f]"
    using assms by (cases required_fields rule: rev_cases) auto
  obtain body where body: "canonical_line entry f = body @ ''}''"
    using canonical_line_last by blast
  have fl: "field_line entry = (\<lambda>g. canonical_line entry g @ [CHR '','', nl])"
    by (rule ext) (simp add: field_line_canonical)
  let ?pre = "h @ concat (map (field_line entry) fs) @ body"
  have "h @ concat (map (field_line entry) required_fields) = ?pre @ CHR ''}'' # [CHR '','', nl]"
    by (simp add: req field_line_canonical body)
  moreover have "rstrip [CHR '','', nl] (?pre @ CHR ''}'' # [CHR '','', nl]) = ?pre @ ''}''"
    by (rule rstrip_tail) simp_all
  ultimately have "rstrip [CHR '','', nl] (h @ concat (map (field_line entry) required_fields)) = ?pre @ ''}''"
    by simp
  also have "\<dots> = h @ join [CHR '','', nl] (map (canonical_line entry) required_fields)"
    by (simp add: req join_snoc body fl comp_def)
  finally show ?thesis .
qed

lemma generate_bibtex_Cons:
  "generate_bibtex entry t (f0 # fs) fc =
     Inr (if filter (\<lambda>f. falsy (lookup entry f)) (f0 # fs) \<noteq> [] then
            ''error: '' @ missing_fields_text @ '': ''
              @ join '', '' (filter (\<lambda>f. falsy (lookup entry f)) (f0 # fs))
          else (case fc of
                  None \<Rightarrow> ''ok''
                | Some pattern \<Rightarrow>
                    if re_match pattern (get_or entry f0 ''null'') then ''ok''
                    else ''warning: '' @ f0 @ format_error_text),
          canonical_rendering entry t (f0 # fs))"
proof -
  have u: "rstrip [CHR '','', nl] (header entry t @ concat (map (field_line entry) (f0 # fs)))
             = header entry t @ join [CHR '','', nl] (map (canonical_line entry) (f0 # fs))"
    by (rule update_entry_canonical) simp
  show ?thesis
    unfolding generate_bibtex_def Let_def canonical_rendering_def u
    by (simp split: option.split)
qed

lemma selected_rule_Cons:
  "selected_rule entry ty = Some (t, req, fc) \<Longrightarrow> \<exists>f0 fs. req = f0 # fs"
  by (auto simp: selected_rule_def split: if_splits)

lemma selected_rule_first:
  "selected_rule entry ty = Some (t, req, Some pattern) \<Longrightarrow> \<exists>fs. req = ''title'' # fs"
  by (auto simp: selected_rule_def split: if_splits)

lemma print_entry_info_selected:
  assumes "lookup entry ''ENTRYTYPE'' = Some ty"
    and "selected_rule entry ty = Some (t, req, fc)"
  shows "print_entry_info entry =
           (case (if t = ''www'' then demote (generate_bibtex entry t req fc)
                  else generate_bibtex entry t req fc) of
              Inl e \<Rightarrow> Inl e
            | Inr (record, update_entry) \<Rightarrow> Inr (record, update_entry, original_entry entry ty))"
  using assms unfolding print_entry_info_def selected_rule_def
  by (auto split: if_splits)

lemma print_entry_info_unknown:
  assumes "lookup entry ''ENTRYTYPE'' = Some ty"
    and "selected_rule entry ty = None"
  shows "print_entry_info entry =
           Inr (''error: '' @ undefined_type_text, [], original_entry entry ty)"
  using assms unfolding print_entry_info_def selected_rule_def
  by (auto split: if_splits)

lemma demote_Inr:
  "demote (Inr (r, u)) = Inr (if r = ''ok'' then ''warning: misc'' @ rewritten_text @ ''www'' else r, u)"
  by (simp add: demote_def)

lemma selected_rule_www:
  "selected_rule entry ty = Some (t, req, fc) \<Longrightarrow>
     (t = ''www'') = (lower ty \<in> set [''misc'', ''www''])"
  by (auto simp: selected_rule_def split: if_splits)

lemma selected_rule_www_fields:
  "lower ty \<in> set [''misc'', ''www''] \<Longrightarrow>
     selected_rule entry ty = Some (''www'', [''author'', ''year'', ''title'', ''url''], None)"
  by (auto simp: selected_rule_def)

lemma selected_rule_None:
  "(selected_rule entry ty = None) =
     (lower ty \<notin> set [''article'', ''inproceedings'', ''misc'', ''www'', ''book'', ''techreport''])"
  by (auto simp: selected_rule_def)

text \<open>
  The type test follows \<open>str.lower()\<close> outside ASCII too: \<open>BOO\<close> followed by the Kelvin
  sign is the type \<open>book\<close>.
\<close>

lemma selected_rule_kelvin:
  "selected_rule entry (''BOO'' @ [CHR 0xE2, CHR 0x84, CHR 0xAA]) =
     Some (''book'', [''author'', ''title'', ''publisher'', ''year'', ''address'', ''edition''], None)"
  by (simp add: selected_rule_def lower_char_def)

lemma no_missing: "(\<forall>f\<in>set req. \<not> falsy (lookup entry f)) \<Longrightarrow> filter (\<lambda>f. falsy (lookup entry f)) req = []"
  by (simp add: filter_empty_conv)

lemma some_missing: "(\<exists>f\<in>set req. falsy (lookup entry f)) \<Longrightarrow> filter (\<lambda>f. falsy (lookup entry f)) req \<noteq> []"
  by (simp add: filter_empty_conv)

subsection \<open>The text operations\<close>

text \<open>
  Case mapping and padding outside ASCII: a type written with the Kelvin sign is \<open>book\<close>
  in lower case, and a name with accented letters is padded by its three characters, not
  by its five bytes.
\<close>

lemma lower_kelvin: "lower (''BOO'' @ [CHR 0xE2, CHR 0x84, CHR 0xAA]) = ''book''"
  by (simp add: lower_char_def)

lemma lower_dotted: "lower (''arx'' @ [CHR 0xC4, CHR 0xB0] @ ''v'') = ''arxi'' @ [CHR 0xCC, CHR 0x87] @ ''v''"
  by (simp add: lower_char_def)

lemma ljust_accents: "ljust 10 [CHR 0xC3, CHR 0xA9, CHR ''t'', CHR 0xC3, CHR 0xA9]
   = [CHR 0xC3, CHR 0xA9, CHR ''t'', CHR 0xC3, CHR 0xA9] @ ''       ''"
  by (simp add: ljust_def py_len_def is_continuation_def eval_nat_numeral)

lemma py_len_ascii_example: "py_len ''institution'' = 11"
  by (simp add: py_len_def is_continuation_def)

text \<open>\<open>contains\<close> is the substring test: \<open>sub\<close> occurs somewhere inside \<open>s\<close>.\<close>

lemma startswith_iff: "startswith s sub = (\<exists>q. s = sub @ q)"
  by (induction s sub rule: startswith.induct) auto

lemma contains_iff: "contains s sub = (\<exists>p q. s = p @ sub @ q)"
proof (induction s)
  case Nil
  then show ?case by simp
next
  case (Cons c cs)
  have "(\<exists>p q. c # cs = p @ sub @ q) = ((\<exists>q. c # cs = sub @ q) \<or> (\<exists>p q. cs = p @ sub @ q))"
  proof
    assume "\<exists>p q. c # cs = p @ sub @ q"
    then obtain p q where h: "c # cs = p @ sub @ q" by blast
    show "(\<exists>q. c # cs = sub @ q) \<or> (\<exists>p q. cs = p @ sub @ q)"
    proof (cases p)
      case Nil
      with h show ?thesis by auto
    next
      case (Cons x p')
      with h have "cs = p' @ sub @ q" by simp
      then show ?thesis by blast
    qed
  next
    assume "(\<exists>q. c # cs = sub @ q) \<or> (\<exists>p q. cs = p @ sub @ q)"
    then show "\<exists>p q. c # cs = p @ sub @ q"
    proof
      assume "\<exists>q. c # cs = sub @ q"
      then obtain q where "c # cs = [] @ sub @ q" by auto
      then show ?thesis by blast
    next
      assume "\<exists>p q. cs = p @ sub @ q"
      then obtain p q where "c # cs = (c # p) @ sub @ q" by auto
      then show ?thesis by blast
    qed
  qed
  then show ?case
    using Cons.IH by (simp add: startswith_iff)
qed

lemma str_nat_example: "str_nat 1207 = ''1207''"
  by (simp add: str_nat.simps)

subsection \<open>What the parenthesised-group pattern accepts\<close>

text \<open>
  A text matches \<^verbatim>\<open>.*\([^)]*\)$\<close> exactly when it is a stretch without a newline, an
  opening parenthesis, a stretch without a closing parenthesis and a closing parenthesis,
  at the end of the text or before a newline that ends it.
\<close>

lemma rmatch_Star:
  "rmatch (Star a # p) b s =
     (\<exists>xs ys. s = xs @ ys \<and> (\<forall>c\<in>set xs. atom_ok a c) \<and> rmatch p (b \<and> xs = []) ys)"
proof (induction s arbitrary: b)
  case Nil
  then show ?case by simp
next
  case (Cons c cs)
  show ?case
  proof
    assume "rmatch (Star a # p) b (c # cs)"
    then consider "rmatch p b (c # cs)" | "atom_ok a c" "rmatch (Star a # p) False cs"
      by auto
    then show "\<exists>xs ys. c # cs = xs @ ys \<and> (\<forall>c\<in>set xs. atom_ok a c) \<and> rmatch p (b \<and> xs = []) ys"
    proof cases
      case 1
      then have "c # cs = [] @ (c # cs) \<and> (\<forall>c\<in>set []. atom_ok a c) \<and> rmatch p (b \<and> [] = []) (c # cs)"
        by simp
      then show ?thesis by blast
    next
      case 2
      then obtain xs ys where "cs = xs @ ys" "\<forall>c\<in>set xs. atom_ok a c" "rmatch p False ys"
        using Cons.IH [of False] by auto
      then have "c # cs = (c # xs) @ ys \<and> (\<forall>d\<in>set (c # xs). atom_ok a d) \<and> rmatch p (b \<and> c # xs = []) ys"
        using 2(1) by simp
      then show ?thesis by blast
    qed
  next
    assume "\<exists>xs ys. c # cs = xs @ ys \<and> (\<forall>c\<in>set xs. atom_ok a c) \<and> rmatch p (b \<and> xs = []) ys"
    then obtain xs ys where h: "c # cs = xs @ ys" "\<forall>c\<in>set xs. atom_ok a c" "rmatch p (b \<and> xs = []) ys"
      by blast
    show "rmatch (Star a # p) b (c # cs)"
    proof (cases xs)
      case Nil
      with h have "rmatch p b (c # cs)" by auto
      then show ?thesis by simp
    next
      case (Cons x xs')
      with h have "x = c" "cs = xs' @ ys" "atom_ok a c" "\<forall>c\<in>set xs'. atom_ok a c" "rmatch p False ys"
        by auto
      then have "rmatch (Star a # p) False cs"
        using Cons.IH [of False] by auto
      with \<open>atom_ok a c\<close> show ?thesis by simp
    qed
  qed
qed

lemma rmatch_One:
  "rmatch (One a # p) b s = (\<exists>c cs. s = c # cs \<and> atom_ok a c \<and> rmatch p False cs)"
  by (cases s) auto

lemma rmatch_Eol: "rmatch [Eol] b s = (s = [] \<or> s = [nl])"
  by simp

lemma all_not_in: "(\<forall>c\<in>set xs. c \<notin> set [d]) = (d \<notin> set xs)"
  by auto

lemma all_neq: "(\<forall>c\<in>set xs. c \<noteq> d) = (d \<notin> set xs)"
  by auto

lemma paren_tail:
  "rmatch [Star (NotOf '')''), One (Lit CHR '')''), Eol] b r =
     (\<exists>m e. r = m @ CHR '')'' # e \<and> CHR '')'' \<notin> set m \<and> (e = [] \<or> e = [nl]))"
  by (simp only: rmatch_Star rmatch_One rmatch_Eol atom_ok.simps all_not_in) blast

lemma re_match_paren:
  "re_match paren_format_check s =
     (\<exists>p m e. s = p @ CHR ''('' # m @ CHR '')'' # e
        \<and> nl \<notin> set p \<and> CHR '')'' \<notin> set m \<and> (e = [] \<or> e = [nl]))"
  unfolding re_match_def paren_format_check_def
  by (simp only: rmatch_Star [of Dot] rmatch_One [of "Lit CHR ''(''"] paren_tail atom_ok.simps all_neq)
     blast

section \<open>The format check\<close>

text \<open>
  Claim C1, as amended. \<open>generate_bibtex\<close> hands \<open>re.match\<close> the value of the first
  required field and names that field in the warning. Under the rule that requires a
  closing parenthesised group (entries of type \<open>inproceedings\<close>, and of type \<open>article\<close>
  outside the arXiv form) the first required field is \<open>title\<close>: when every required
  field is present and non-empty, the verdict is \<open>ok\<close> if the title matches the pattern
  and the warning that names \<open>title\<close> otherwise. The value of \<open>pages\<close> plays no part.
\<close>

theorem format_check_tests_title:
  assumes "lookup entry ''ENTRYTYPE'' = Some ty"
    and "selected_rule entry ty = Some (t, req, Some paren_format_check)"
    and "\<forall>f\<in>set req. \<not> falsy (lookup entry f)"
    and "lookup entry ''title'' = Some title"
  shows "record_of (print_entry_info entry) =
           Some (if re_match paren_format_check title then ''ok''
                 else ''warning: title'' @ format_error_text)"
proof -
  obtain fs where req: "req = ''title'' # fs"
    using assms(2) selected_rule_first by blast
  have www: "t \<noteq> ''www''"
    using assms(2) by (auto simp: selected_rule_def split: if_splits)
  have "filter (\<lambda>f. falsy (lookup entry f)) (''title'' # fs) = []"
    using assms(3) no_missing unfolding req by blast
  then show ?thesis
    using www assms(4)
    by (simp only: print_entry_info_selected [OF assms(1,2)] req generate_bibtex_Cons)
       (simp add: record_of_def get_or_def)
qed

text \<open>
  The theorem at an \<open>inproceedings\<close> entry with its five fields present and the title
  \<open>Deep nets\<close>.
\<close>

theorem format_check_tests_title_witness:
  "lookup (inproceedings_example ''Deep nets'') ''ENTRYTYPE'' = Some ''inproceedings''
   \<and> selected_rule (inproceedings_example ''Deep nets'') ''inproceedings''
       = Some (''inproceedings'', [''title'', ''author'', ''booktitle'', ''year'', ''pages''],
               Some paren_format_check)
   \<and> list_all (\<lambda>f. \<not> falsy (lookup (inproceedings_example ''Deep nets'') f))
         [''title'', ''author'', ''booktitle'', ''year'', ''pages'']
   \<and> lookup (inproceedings_example ''Deep nets'') ''title'' = Some ''Deep nets''
   \<and> \<not> re_match paren_format_check ''Deep nets''
   \<and> record_of (print_entry_info (inproceedings_example ''Deep nets''))
       = Some (''warning: title'' @ format_error_text)"
proof -
  have 1: "lookup (inproceedings_example ''Deep nets'') ''ENTRYTYPE'' = Some ''inproceedings''"
    by (simp add: inproceedings_example_def lookup_def)
  have 2: "selected_rule (inproceedings_example ''Deep nets'') ''inproceedings''
       = Some (''inproceedings'', [''title'', ''author'', ''booktitle'', ''year'', ''pages''],
               Some paren_format_check)"
    by (simp add: selected_rule_def lower_char_def)
  have 3: "\<forall>f\<in>set [''title'', ''author'', ''booktitle'', ''year'', ''pages''].
         \<not> falsy (lookup (inproceedings_example ''Deep nets'') f)"
    by (simp add: inproceedings_example_def lookup_def falsy_def)
  have 4: "lookup (inproceedings_example ''Deep nets'') ''title'' = Some ''Deep nets''"
    by (simp add: inproceedings_example_def lookup_def)
  have 5: "\<not> re_match paren_format_check ''Deep nets''"
    by (simp add: re_match_def paren_format_check_def)
  show ?thesis
    using format_check_tests_title [OF 1 2 3 4] 1 2 3 4 5 by (simp add: list_all_iff)
qed

text \<open>
  Claim C1 as stated fails: with all five fields present and \<open>pages\<close> equal to \<open>1-20\<close>,
  which does not match the pattern, the verdict is the warning about \<open>title\<close> for the title
  \<open>Deep nets\<close>, never a warning about \<open>pages\<close>, and it is \<open>ok\<close> for the title
  \<open>Nets (v2)\<close>.
\<close>

theorem format_check_pages_counterexample:
  "lookup (inproceedings_example ''Deep nets'') ''pages'' = Some ''1-20''
   \<and> \<not> re_match paren_format_check ''1-20''
   \<and> record_of (print_entry_info (inproceedings_example ''Deep nets''))
       = Some (''warning: title'' @ format_error_text)
   \<and> record_of (print_entry_info (inproceedings_example ''Deep nets''))
       \<noteq> Some (''warning: pages'' @ format_error_text)
   \<and> lookup (inproceedings_example ''Nets (v2)'') ''pages'' = Some ''1-20''
   \<and> record_of (print_entry_info (inproceedings_example ''Nets (v2)'')) = Some ''ok''"
  by (simp add: inproceedings_example_def model_defs)

text \<open>
  Claim C2, as amended. An entry of a known type other than \<open>misc\<close> and \<open>www\<close>, with
  every required field present and non-empty, gets the verdict \<open>ok\<close> when its rule has no
  pattern (\<open>book\<close>, \<open>techreport\<close>), and when its rule has the parenthesised-group
  pattern (\<open>inproceedings\<close>, and \<open>article\<close> outside the arXiv form) and its title matches
  that pattern. The title is the value the script tests; the values of the other fields
  play no part.
\<close>

theorem complete_entry_ok:
  assumes "lookup entry ''ENTRYTYPE'' = Some ty"
    and "selected_rule entry ty = Some (t, req, fc)"
    and "\<forall>f\<in>set req. \<not> falsy (lookup entry f)"
    and "lookup entry ''title'' = Some title"
    and "fc = None \<or> (fc = Some paren_format_check \<and> re_match paren_format_check title)"
    and "lower ty \<notin> set [''misc'', ''www'']"
  shows "record_of (print_entry_info entry) = Some ''ok''"
proof -
  obtain f0 fs where req: "req = f0 # fs"
    using assms(2) selected_rule_Cons by blast
  have www: "t \<noteq> ''www''"
    using assms(2,6) selected_rule_www by blast
  have none: "filter (\<lambda>f. falsy (lookup entry f)) (f0 # fs) = []"
    using assms(3) no_missing unfolding req by blast
  from assms(5) show ?thesis
  proof
    assume "fc = None"
    then show ?thesis
      using www none
      by (simp only: print_entry_info_selected [OF assms(1,2)] req generate_bibtex_Cons)
         (simp add: record_of_def)
  next
    assume fc: "fc = Some paren_format_check \<and> re_match paren_format_check title"
    then have "f0 = ''title''"
      using assms(2) selected_rule_first unfolding req by blast
    then show ?thesis
      using www none fc assms(4)
      by (simp only: print_entry_info_selected [OF assms(1,2)] req generate_bibtex_Cons)
         (simp add: record_of_def get_or_def)
  qed
qed

text \<open>The theorem at an \<open>inproceedings\<close> entry whose title ends in a parenthesised group.\<close>

theorem complete_entry_ok_witness:
  "lookup (inproceedings_example ''Nets (v2)'') ''ENTRYTYPE'' = Some ''inproceedings''
   \<and> selected_rule (inproceedings_example ''Nets (v2)'') ''inproceedings''
       = Some (''inproceedings'', [''title'', ''author'', ''booktitle'', ''year'', ''pages''],
               Some paren_format_check)
   \<and> list_all (\<lambda>f. \<not> falsy (lookup (inproceedings_example ''Nets (v2)'') f))
         [''title'', ''author'', ''booktitle'', ''year'', ''pages'']
   \<and> lookup (inproceedings_example ''Nets (v2)'') ''title'' = Some ''Nets (v2)''
   \<and> re_match paren_format_check ''Nets (v2)''
   \<and> lower ''inproceedings'' \<notin> set [''misc'', ''www'']
   \<and> record_of (print_entry_info (inproceedings_example ''Nets (v2)'')) = Some ''ok''"
proof -
  let ?e = "inproceedings_example ''Nets (v2)''"
  let ?req = "[''title'', ''author'', ''booktitle'', ''year'', ''pages'']"
  have 1: "lookup ?e ''ENTRYTYPE'' = Some ''inproceedings''"
    by (simp add: inproceedings_example_def lookup_def)
  have 2: "selected_rule ?e ''inproceedings'' = Some (''inproceedings'', ?req, Some paren_format_check)"
    by (simp add: selected_rule_def lower_char_def)
  have 3: "\<forall>f\<in>set ?req. \<not> falsy (lookup ?e f)"
    by (simp add: inproceedings_example_def lookup_def falsy_def)
  have 4: "lookup ?e ''title'' = Some ''Nets (v2)''"
    by (simp add: inproceedings_example_def lookup_def)
  have 5: "re_match paren_format_check ''Nets (v2)''"
    by (simp add: re_match_def paren_format_check_def)
  have 6: "lower ''inproceedings'' \<notin> set [''misc'', ''www'']"
    by (simp add: lower_char_def)
  show ?thesis
    using complete_entry_ok [OF 1 2 3 4 _ 6] 1 2 3 4 5 6 by (simp add: list_all_iff)
qed

text \<open>
  Claim C2 as stated fails. The first entry is an \<open>inproceedings\<close> entry with its five
  fields present and a \<open>pages\<close> value that matches the parenthesised-group pattern; the
  second is an \<open>article\<close> of the arXiv form with its four fields present and a \<open>journal\<close>
  value that matches the arXiv pattern. Both get the warning about the title instead of
  \<open>ok\<close>.
\<close>

theorem complete_entry_counterexample:
  "lookup paged_example ''pages'' = Some ''770-778 (2016)''
   \<and> re_match paren_format_check ''770-778 (2016)''
   \<and> list_all (\<lambda>f. \<not> falsy (lookup paged_example f))
         [''title'', ''author'', ''booktitle'', ''year'', ''pages'']
   \<and> record_of (print_entry_info paged_example) = Some (''warning: title'' @ format_error_text)
   \<and> lookup arxiv_example ''journal'' = Some ''arXiv preprint arXiv:1706.03762''
   \<and> re_match arxiv_format_check ''arXiv preprint arXiv:1706.03762''
   \<and> list_all (\<lambda>f. \<not> falsy (lookup arxiv_example f)) [''title'', ''author'', ''year'', ''journal'']
   \<and> record_of (print_entry_info arxiv_example) = Some (''warning: title'' @ format_error_text)
   \<and> ''warning: title'' @ format_error_text \<noteq> ''ok''"
  by (simp add: paged_example_def arxiv_example_def model_defs)

section \<open>Missing fields\<close>

text \<open>
  Claim C3. An entry of a known type with a required field absent or empty gets the error
  verdict that lists exactly the required fields that are absent or empty, in the order of
  the rule, joined by a comma and a space. Nothing is assumed about the format check: the
  verdict is the same whether or not the checked value matches the pattern.
\<close>

theorem missing_fields_error:
  assumes "lookup entry ''ENTRYTYPE'' = Some ty"
    and "selected_rule entry ty = Some (t, req, fc)"
    and "\<exists>f\<in>set req. falsy (lookup entry f)"
  shows "record_of (print_entry_info entry) =
           Some (''error: '' @ missing_fields_text @ '': ''
                 @ join '', '' (filter (\<lambda>f. falsy (lookup entry f)) req))"
proof -
  obtain f0 fs where req: "req = f0 # fs"
    using assms(2) selected_rule_Cons by blast
  have "filter (\<lambda>f. falsy (lookup entry f)) (f0 # fs) \<noteq> []"
    using assms(3) some_missing unfolding req by blast
  then show ?thesis
    by (simp only: print_entry_info_selected [OF assms(1,2)] req generate_bibtex_Cons demote_Inr)
       (simp add: record_of_def)
qed

text \<open>
  The theorem at an \<open>inproceedings\<close> entry with an empty \<open>year\<close>, no \<open>pages\<close> and a
  title that does not match the pattern.
\<close>

theorem missing_fields_error_witness:
  "lookup incomplete_example ''ENTRYTYPE'' = Some ''InProceedings''
   \<and> selected_rule incomplete_example ''InProceedings''
       = Some (''inproceedings'', [''title'', ''author'', ''booktitle'', ''year'', ''pages''],
               Some paren_format_check)
   \<and> (\<exists>f\<in>set [''title'', ''author'', ''booktitle'', ''year'', ''pages''].
         falsy (lookup incomplete_example f))
   \<and> \<not> re_match paren_format_check (get_or incomplete_example ''title'' ''null'')
   \<and> record_of (print_entry_info incomplete_example)
       = Some (''error: '' @ missing_fields_text @ '': year, pages'')"
proof -
  let ?req = "[''title'', ''author'', ''booktitle'', ''year'', ''pages'']"
  have 1: "lookup incomplete_example ''ENTRYTYPE'' = Some ''InProceedings''"
    by (simp add: incomplete_example_def lookup_def)
  have 2: "selected_rule incomplete_example ''InProceedings''
             = Some (''inproceedings'', ?req, Some paren_format_check)"
    by (simp add: selected_rule_def lower_char_def)
  have 3: "\<exists>f\<in>set ?req. falsy (lookup incomplete_example f)"
    by (simp add: incomplete_example_def lookup_def falsy_def)
  have 4: "\<not> re_match paren_format_check (get_or incomplete_example ''title'' ''null'')"
    by (simp add: incomplete_example_def lookup_def get_or_def re_match_def paren_format_check_def)
  have 5: "filter (\<lambda>f. falsy (lookup incomplete_example f)) ?req = [''year'', ''pages'']"
    by (simp add: incomplete_example_def lookup_def falsy_def)
  show ?thesis
    using missing_fields_error [OF 1 2 3, unfolded 5] 1 2 3 4 by simp
qed

text \<open>
  Claim C9. When a required field of an entry of a known type is present with the empty
  text as its value, the verdict is the missing-fields error and the field is in its list,
  while the line of the field in the rewritten entry shows the empty value between the
  braces. \<open>canonical_line\<close> puts \<open>null\<close> between the braces only for a key that
  \<open>lookup\<close> does not find.
\<close>

theorem empty_value_missing_but_rendered:
  assumes "lookup entry ''ENTRYTYPE'' = Some ty"
    and "selected_rule entry ty = Some (t, pre @ field # post, fc)"
    and "lookup entry field = Some []"
  shows "record_of (print_entry_info entry) =
           Some (''error: '' @ missing_fields_text @ '': ''
                 @ join '', '' (filter (\<lambda>f. falsy (lookup entry f)) (pre @ field # post)))
         \<and> field \<in> set (filter (\<lambda>f. falsy (lookup entry f)) (pre @ field # post))
         \<and> update_of (print_entry_info entry) =
             Some (''@'' @ t @ ''{'' @ get_or entry ''ID'' ''unnamed'' @ [CHR '','', nl]
                   @ join [CHR '','', nl]
                       (map (canonical_line entry) pre
                        @ [tab # ljust 10 field @ '' = {}'']
                        @ map (canonical_line entry) post)
                   @ [nl, CHR ''}''])
         \<and> tab # ljust 10 field @ '' = {}'' \<noteq> tab # ljust 10 field @ '' = {null}''"
proof -
  obtain f0 fs where req: "pre @ field # post = f0 # fs"
    using assms(2) selected_rule_Cons by blast
  have missing: "field \<in> set (filter (\<lambda>f. falsy (lookup entry f)) (pre @ field # post))"
    using assms(3) by (simp add: falsy_def)
  then have ne: "filter (\<lambda>f. falsy (lookup entry f)) (f0 # fs) \<noteq> []"
    unfolding req by auto
  have line: "canonical_line entry field = tab # ljust 10 field @ '' = {}''"
    using assms(3) by (simp add: canonical_line_def)
  have pe: "print_entry_info entry =
              Inr (''error: '' @ missing_fields_text @ '': ''
                     @ join '', '' (filter (\<lambda>f. falsy (lookup entry f)) (f0 # fs)),
                   canonical_rendering entry t (f0 # fs), original_entry entry ty)"
    using ne
    by (simp only: print_entry_info_selected [OF assms(1,2)] req generate_bibtex_Cons demote_Inr)
       simp
  have "canonical_rendering entry t (pre @ field # post) =
          ''@'' @ t @ ''{'' @ get_or entry ''ID'' ''unnamed'' @ [CHR '','', nl]
          @ join [CHR '','', nl]
              (map (canonical_line entry) pre @ [tab # ljust 10 field @ '' = {}'']
               @ map (canonical_line entry) post)
          @ [nl, CHR ''}'']"
    by (simp add: canonical_rendering_def header_def line)
  then show ?thesis
    using missing by (simp add: pe record_of_def update_of_def req [symmetric])
qed

text \<open>
  The theorem at a \<open>book\<close> entry whose \<open>address\<close> is empty and whose \<open>edition\<close> is
  absent: both are reported missing, the first is rendered empty, the second as \<open>null\<close>.
\<close>

theorem empty_value_missing_but_rendered_witness:
  "lookup book_example ''ENTRYTYPE'' = Some ''book''
   \<and> selected_rule book_example ''book''
       = Some (''book'', [''author'', ''title'', ''publisher'', ''year''] @ ''address'' # [''edition''], None)
   \<and> lookup book_example ''address'' = Some []
   \<and> lookup book_example ''edition'' = None
   \<and> record_of (print_entry_info book_example)
       = Some (''error: '' @ missing_fields_text @ '': address, edition'')
   \<and> update_of (print_entry_info book_example) =
       Some (''@book{knuth1997,'' @ [nl]
             @ [tab] @ ''author     = {Knuth, D.},'' @ [nl]
             @ [tab] @ ''title      = {TAOCP},'' @ [nl]
             @ [tab] @ ''publisher  = {Addison-Wesley},'' @ [nl]
             @ [tab] @ ''year       = {1997},'' @ [nl]
             @ [tab] @ ''address    = {},'' @ [nl]
             @ [tab] @ ''edition    = {null}'' @ [nl]
             @ ''}'')"
proof -
  have 1: "lookup book_example ''ENTRYTYPE'' = Some ''book''"
    by (simp add: book_example_def lookup_def)
  have 2: "selected_rule book_example ''book''
       = Some (''book'', [''author'', ''title'', ''publisher'', ''year''] @ ''address'' # [''edition''], None)"
    by (simp add: selected_rule_def lower_char_def)
  have 3: "lookup book_example ''address'' = Some []"
    by (simp add: book_example_def lookup_def)
  have 4: "lookup book_example ''edition'' = None"
    by (simp add: book_example_def lookup_def)
  have 5: "filter (\<lambda>f. falsy (lookup book_example f))
             ([''author'', ''title'', ''publisher'', ''year''] @ ''address'' # [''edition''])
           = [''address'', ''edition'']"
    by (simp add: book_example_def lookup_def falsy_def)
  show ?thesis
    using empty_value_missing_but_rendered [OF 1 2 3, unfolded 5] 1 2 3 4
    by (simp add: book_example_def canonical_line_def lookup_def get_or_def ljust_def py_len_def is_continuation_def eval_nat_numeral)
qed

section \<open>The rewritten entry\<close>

text \<open>
  Claim C4. For an entry of a known type, whatever the verdict, the rewritten entry is the
  header line (an at sign, the output type, an opening brace, the identifier, a comma),
  then one line for each required field in the order of the rule, then a closing brace on
  a line of its own. The line of a field is a tab, the field name left-justified in ten
  columns, \<open> = \<close> and the value in braces, with \<open>null\<close> for a key the entry does not
  have. A comma and a newline separate consecutive lines; only a newline follows the last
  field line.
\<close>

theorem rewritten_entry_shape:
  assumes "lookup entry ''ENTRYTYPE'' = Some ty"
    and "selected_rule entry ty = Some (t, req, fc)"
  shows "update_of (print_entry_info entry) =
           Some (''@'' @ t @ ''{'' @ get_or entry ''ID'' ''unnamed'' @ [CHR '','', nl]
                 @ join [CHR '','', nl]
                     (map (\<lambda>field. tab # ljust 10 field @ '' = {''
                                   @ (case lookup entry field of None \<Rightarrow> ''null'' | Some v \<Rightarrow> v)
                                   @ ''}'') req)
                 @ [nl, CHR ''}''])"
proof -
  obtain f0 fs where req: "req = f0 # fs"
    using assms(2) selected_rule_Cons by blast
  have line: "canonical_line entry = (\<lambda>field. tab # ljust 10 field @ '' = {''
                 @ (case lookup entry field of None \<Rightarrow> ''null'' | Some v \<Rightarrow> v) @ ''}'')"
    by (rule ext) (simp add: canonical_line_def)
  have "update_of (print_entry_info entry) = Some (canonical_rendering entry t req)"
    by (simp only: print_entry_info_selected [OF assms] req generate_bibtex_Cons demote_Inr)
       (simp add: update_of_def)
  then show ?thesis
    by (simp add: canonical_rendering_def header_def line)
qed

text \<open>
  The theorem at a \<open>book\<close> entry without \<open>edition\<close>: six field lines, the last one
  reading \<open>null\<close>, although the verdict is an error.
\<close>

theorem rewritten_entry_shape_witness:
  "lookup book_example ''ENTRYTYPE'' = Some ''book''
   \<and> selected_rule book_example ''book''
       = Some (''book'', [''author'', ''title'', ''publisher'', ''year'', ''address'', ''edition''], None)
   \<and> update_of (print_entry_info book_example) =
       Some (''@book{knuth1997,'' @ [nl]
             @ [tab] @ ''author     = {Knuth, D.},'' @ [nl]
             @ [tab] @ ''title      = {TAOCP},'' @ [nl]
             @ [tab] @ ''publisher  = {Addison-Wesley},'' @ [nl]
             @ [tab] @ ''year       = {1997},'' @ [nl]
             @ [tab] @ ''address    = {},'' @ [nl]
             @ [tab] @ ''edition    = {null}'' @ [nl]
             @ ''}'')"
proof -
  have 1: "lookup book_example ''ENTRYTYPE'' = Some ''book''"
    by (simp add: book_example_def lookup_def)
  have 2: "selected_rule book_example ''book''
       = Some (''book'', [''author'', ''title'', ''publisher'', ''year'', ''address'', ''edition''], None)"
    by (simp add: selected_rule_def lower_char_def)
  show ?thesis
    using rewritten_entry_shape [OF 1 2] 1 2
    by (simp add: book_example_def lookup_def get_or_def ljust_def py_len_def is_continuation_def eval_nat_numeral)
qed

text \<open>
  Claim C5. An entry whose type is \<open>misc\<close> or \<open>www\<close> in any letter case, with \<open>author\<close>,
  \<open>year\<close>, \<open>title\<close> and \<open>url\<close> present and non-empty, gets the warning that \<open>misc\<close> was
  rewritten to \<open>www\<close> instead of \<open>ok\<close>, and its rewritten entry has the type \<open>www\<close>.
\<close>

theorem misc_rewritten_to_www:
  assumes "lookup entry ''ENTRYTYPE'' = Some ty"
    and "lower ty \<in> set [''misc'', ''www'']"
    and "\<forall>f\<in>set [''author'', ''year'', ''title'', ''url'']. \<not> falsy (lookup entry f)"
  shows "record_of (print_entry_info entry) = Some (''warning: misc'' @ rewritten_text @ ''www'')
         \<and> update_of (print_entry_info entry) =
             Some (''@www{'' @ get_or entry ''ID'' ''unnamed'' @ [CHR '','', nl]
                   @ join [CHR '','', nl]
                       (map (canonical_line entry) [''author'', ''year'', ''title'', ''url''])
                   @ [nl, CHR ''}''])"
proof -
  have rule: "selected_rule entry ty = Some (''www'', [''author'', ''year'', ''title'', ''url''], None)"
    using assms(2) by (rule selected_rule_www_fields)
  have "filter (\<lambda>f. falsy (lookup entry f)) [''author'', ''year'', ''title'', ''url''] = []"
    using assms(3) by (rule no_missing)
  then show ?thesis
    by (simp only: print_entry_info_selected [OF assms(1) rule] generate_bibtex_Cons demote_Inr)
       (simp add: record_of_def update_of_def canonical_rendering_def header_def)
qed

text \<open>The theorem at an entry of type \<open>Misc\<close> without an identifier.\<close>

theorem misc_rewritten_to_www_witness:
  "lookup misc_example ''ENTRYTYPE'' = Some ''Misc''
   \<and> lower ''Misc'' \<in> set [''misc'', ''www'']
   \<and> list_all (\<lambda>f. \<not> falsy (lookup misc_example f)) [''author'', ''year'', ''title'', ''url'']
   \<and> record_of (print_entry_info misc_example) = Some (''warning: misc'' @ rewritten_text @ ''www'')
   \<and> update_of (print_entry_info misc_example) =
       Some (''@www{unnamed,'' @ [nl]
             @ [tab] @ ''author     = {W3C},'' @ [nl]
             @ [tab] @ ''year       = {2014},'' @ [nl]
             @ [tab] @ ''title      = {HTML5},'' @ [nl]
             @ [tab] @ ''url        = {https://www.w3.org/TR/html5/}'' @ [nl]
             @ ''}'')"
proof -
  have 1: "lookup misc_example ''ENTRYTYPE'' = Some ''Misc''"
    by (simp add: misc_example_def lookup_def)
  have 2: "lower ''Misc'' \<in> set [''misc'', ''www'']"
    by (simp add: lower_char_def)
  have 3: "\<forall>f\<in>set [''author'', ''year'', ''title'', ''url'']. \<not> falsy (lookup misc_example f)"
    by (simp add: misc_example_def lookup_def falsy_def)
  show ?thesis
    using misc_rewritten_to_www [OF 1 2 3] 1 2 3
    by (simp add: list_all_iff misc_example_def canonical_line_def lookup_def get_or_def ljust_def py_len_def is_continuation_def eval_nat_numeral)
qed

section \<open>The arXiv form of an article\<close>

text \<open>
  Claim C6, evaluated where the script departs from it. The entry is an \<open>article\<close> whose
  \<open>journal\<close> is \<open>arXiv preprint arXiv:1706.03762\<close>. The short arXiv rule is selected and
  the journal matches the pattern of the rule, yet the verdict is a warning about the
  title: the pattern is matched against the first required field, which is \<open>title\<close>.
\<close>

theorem arxiv_check_reads_title:
  "selected_rule arxiv_example ''article''
     = Some (''article'', [''title'', ''author'', ''year'', ''journal''], Some arxiv_format_check)
   \<and> lookup arxiv_example ''journal'' = Some ''arXiv preprint arXiv:1706.03762''
   \<and> re_match arxiv_format_check ''arXiv preprint arXiv:1706.03762''
   \<and> lookup arxiv_example ''title'' = Some ''Attention is all you need''
   \<and> record_of (print_entry_info arxiv_example) = Some (''warning: title'' @ format_error_text)"
  by (simp add: arxiv_example_def model_defs)

text \<open>
  The part of the claim about the fields holds for every entry: an \<open>article\<close> whose
  journal contains \<open>arxiv\<close> in any letter case is rewritten with the four fields of the
  short form.
\<close>

lemma arxiv_article_short_form:
  assumes "lookup entry ''ENTRYTYPE'' = Some ty"
    and "lower ty = ''article''"
    and "lookup entry ''journal'' = Some journal"
    and "contains (lower journal) ''arxiv''"
  shows "update_of (print_entry_info entry) =
           Some (canonical_rendering entry ''article'' [''title'', ''author'', ''year'', ''journal''])"
proof -
  have "selected_rule entry ty =
          Some (''article'', [''title'', ''author'', ''year'', ''journal''], Some arxiv_format_check)"
    using assms(2,3,4) by (simp add: selected_rule_def is_arxiv_def)
  then show ?thesis
    by (simp only: print_entry_info_selected [OF assms(1)] generate_bibtex_Cons)
       (simp add: update_of_def)
qed

section \<open>Unknown types\<close>

text \<open>
  Claim C7. For an entry whose type, put in lower case as \<open>str.lower()\<close> does, is none
  of \<open>article\<close>, \<open>inproceedings\<close>, \<open>misc\<close>, \<open>www\<close>, \<open>book\<close> and \<open>techreport\<close>,
  \<open>print_entry_info\<close> returns (it does not raise) the undefined-type error together with
  an empty rewritten entry and the rendering of the original entry.
\<close>

theorem undefined_type_error:
  assumes "lookup entry ''ENTRYTYPE'' = Some ty"
    and "lower ty \<notin> set [''article'', ''inproceedings'', ''misc'', ''www'', ''book'', ''techreport'']"
  shows "print_entry_info entry =
           Inr (''error: '' @ undefined_type_text, [], original_entry entry ty)"
proof -
  have "selected_rule entry ty = None"
    using assms(2) selected_rule_None by blast
  with assms(1) show ?thesis
    by (rule print_entry_info_unknown)
qed

text \<open>The theorem at an entry of type \<open>patent\<close>.\<close>

theorem undefined_type_error_witness:
  "lookup patent_example ''ENTRYTYPE'' = Some ''patent''
   \<and> lower ''patent'' \<notin> set [''article'', ''inproceedings'', ''misc'', ''www'', ''book'', ''techreport'']
   \<and> print_entry_info patent_example =
       Inr (''error: '' @ undefined_type_text, [], original_entry patent_example ''patent'')"
proof -
  have 1: "lookup patent_example ''ENTRYTYPE'' = Some ''patent''"
    by (simp add: patent_example_def lookup_def)
  have 2: "lower ''patent'' \<notin> set [''article'', ''inproceedings'', ''misc'', ''www'', ''book'', ''techreport'']"
    by (simp add: lower_char_def)
  show ?thesis
    using undefined_type_error [OF 1 2] 1 2 by simp
qed

section \<open>The batch\<close>

text \<open>
  Claim C8. When \<open>parse_bib_file\<close> returns no entry (the file holds none, is absent or
  cannot be parsed), \<open>main\<close> ends normally and the world it leaves differs from the one it
  found in two ways only: the no-records message is the last line printed, and no audit
  workbook exists. No row is written to a workbook and the consolidated file is not
  touched; a workbook left by an earlier run has been removed by the reset that opens
  every run.
\<close>

theorem no_records_no_artifacts:
  assumes "fst (parse_bib_file ''bib.ref'' outcome) = []"
  shows "main outcome w =
           (None,
            w\<lparr>stdout := stdout w @ snd (parse_bib_file ''bib.ref'' outcome) @ [no_records_text],
              xlsx := None\<rparr>)"
  using assms by (cases "parse_bib_file ''bib.ref'' outcome") (simp add: main_def print_def)

text \<open>
  The theorem at a run that parses no entry, started where an earlier run left a workbook
  and a consolidated file: the consolidated file still holds its old content.
\<close>

theorem no_records_no_artifacts_witness:
  "fst (parse_bib_file ''bib.ref'' (Parsed [])) = []
   \<and> main (Parsed []) stale_world
       = (None, \<lparr>stdout = [no_records_text], xlsx = None, bib = Some ''old''\<rparr>)"
proof -
  have 1: "fst (parse_bib_file ''bib.ref'' (Parsed [])) = []"
    by (simp add: parse_bib_file_def)
  have 2: "snd (parse_bib_file ''bib.ref'' (Parsed [])) = []"
    by (simp add: parse_bib_file_def)
  show ?thesis
    using no_records_no_artifacts [OF 1, of stale_world] 1 2
    by (simp add: stale_world_def)
qed

lemma write_updates_skip:
  assumes "print_entry_info entry = Inr (r, [], original)"
  shows "write_updates (before @ entry # after) f = write_updates (before @ after) f"
  using assms by (induction before arbitrary: f) (auto split: sum.splits)

text \<open>
  Claim C10. An entry of unknown type (its type in lower case, as \<open>str.lower()\<close> gives
  it, is none of the six known ones) has an empty rewritten entry, and \<open>save_all_updates\<close>
  writes for a batch that contains it exactly what it writes for the batch without it:
  neither a rendering nor the blank line that follows one.
\<close>

theorem unknown_type_not_written:
  assumes "lookup entry ''ENTRYTYPE'' = Some ty"
    and "lower ty \<notin> set [''article'', ''inproceedings'', ''misc'', ''www'', ''book'', ''techreport'']"
  shows "update_of (print_entry_info entry) = Some []
         \<and> save_all_updates (before @ entry # after) w = save_all_updates (before @ after) w"
proof -
  have "selected_rule entry ty = None"
    using assms(2) selected_rule_None by blast
  with assms(1) have pe: "print_entry_info entry =
      Inr (''error: '' @ undefined_type_text, [], original_entry entry ty)"
    by (rule print_entry_info_unknown)
  then have "write_updates (before @ entry # after) [] = write_updates (before @ after) []"
    by (rule write_updates_skip)
  then show ?thesis
    by (simp add: pe update_of_def save_all_updates_def)
qed

text \<open>
  The theorem at a batch of two entries, the second of type \<open>patent\<close>: the file written
  holds the first entry only.
\<close>

theorem unknown_type_not_written_witness:
  "lookup patent_example ''ENTRYTYPE'' = Some ''patent''
   \<and> lower ''patent'' \<notin> set [''article'', ''inproceedings'', ''misc'', ''www'', ''book'', ''techreport'']
   \<and> save_all_updates ([misc_example] @ patent_example # []) stale_world
       = save_all_updates ([misc_example] @ []) stale_world
   \<and> save_all_updates [misc_example, patent_example] stale_world
       = (None, stale_world\<lparr>bib := Some
           (''@www{unnamed,'' @ [nl]
             @ [tab] @ ''author     = {W3C},'' @ [nl]
             @ [tab] @ ''year       = {2014},'' @ [nl]
             @ [tab] @ ''title      = {HTML5},'' @ [nl]
             @ [tab] @ ''url        = {https://www.w3.org/TR/html5/}'' @ [nl]
             @ ''}'' @ [nl, nl])\<rparr>)"
proof -
  have 1: "lookup patent_example ''ENTRYTYPE'' = Some ''patent''"
    by (simp add: patent_example_def lookup_def)
  have 2: "lower ''patent'' \<notin> set [''article'', ''inproceedings'', ''misc'', ''www'', ''book'', ''techreport'']"
    by (simp add: lower_char_def)
  have 3: "save_all_updates [misc_example] stale_world
       = (None, stale_world\<lparr>bib := Some
           (''@www{unnamed,'' @ [nl]
             @ [tab] @ ''author     = {W3C},'' @ [nl]
             @ [tab] @ ''year       = {2014},'' @ [nl]
             @ [tab] @ ''title      = {HTML5},'' @ [nl]
             @ [tab] @ ''url        = {https://www.w3.org/TR/html5/}'' @ [nl]
             @ ''}'' @ [nl, nl])\<rparr>)"
    by (simp add: save_all_updates_def misc_example_def model_defs eval_nat_numeral)
  show ?thesis
    using unknown_type_not_written [OF 1 2, of "[misc_example]" "[]" stale_world] 1 2 3
    by simp
qed

end
